theory Spec2Isabelle
  imports Main "HOL-Library.Word"
begin

unbundle bit_operations_syntax

section \<open>The host object model\<close>

text \<open>
  \<open>rp_method.c\<close> works on Ruby object handles (\<open>VALUE\<close>, an \<open>unsigned long\<close>) and method
  identifiers (\<open>ID\<close>), and asks the interpreter about them through macros and functions of
  \<open>ruby.h\<close>. None of that is code of the profiler, so the queries are the fields of a record
  \<open>host\<close> that every function of the model receives: any object graph can be supplied.
\<close>

type_synonym VALUE = "64 word"
type_synonym ID = "64 word"

text \<open>\<open>Qnil\<close> as \<open>ruby.h\<close> defines it on 64-bit builds; \<open>Qfalse\<close> is 0.\<close>

definition Qnil :: VALUE where
  "Qnil = 8"

text \<open>\<open>#define RTEST(v) !(((VALUE)(v) & ~Qnil) == 0)\<close>\<close>

definition RTEST :: "VALUE \<Rightarrow> bool" where
  "RTEST v = (v AND NOT Qnil \<noteq> 0)"

text \<open>The builtin types the code tests for; \<open>T_OTHER\<close> stands for every other one.\<close>

datatype ruby_type = T_OBJECT | T_CLASS | T_MODULE | T_ICLASS | T_OTHER

record host =
  BUILTIN_TYPE :: "VALUE \<Rightarrow> ruby_type"
  FL_SINGLETON :: "VALUE \<Rightarrow> bool"            \<comment> \<open>\<open>FL_TEST(klass, FL_SINGLETON)\<close>\<close>
  attached :: "VALUE \<Rightarrow> VALUE"                 \<comment> \<open>\<open>rb_iv_get(klass, "__attached__")\<close>\<close>
  rb_class_superclass :: "VALUE \<Rightarrow> VALUE"
  rb_class_name :: "VALUE \<Rightarrow> string"
  rb_any_to_s :: "VALUE \<Rightarrow> string"
  RBASIC_klass :: "VALUE \<Rightarrow> VALUE"             \<comment> \<open>\<open>RBASIC(klass)->klass\<close>\<close>
  rb_id2str :: "ID \<Rightarrow> string"
  rb_sourcefile :: "string option"               \<comment> \<open>\<open>rb_sourcefile()\<close>, \<open>None\<close> for \<open>NULL\<close>\<close>

text \<open>\<open>RUBY_EVENT_C_CALL\<close> of \<open>ruby.h\<close>; events are \<open>rb_event_flag_t\<close>, 32 bits.\<close>

definition RUBY_EVENT_C_CALL :: "32 word" where
  "RUBY_EVENT_C_CALL = 0x20"

section \<open>Relation bits\<close>

text \<open>
  Modelled from the spec: the bit offsets \<open>kModuleIncludee\<close>, \<open>kModuleSingleton\<close> and
  \<open>kObjectSingleton\<close>, an enumeration of \<open>rp_method.h\<close>, which is not among the sources.
  The specification has them as three independent flags of one bitset: three distinct
  offsets below the width of \<open>int\<close>.
\<close>

definition kModuleIncludee :: nat where
  "kModuleIncludee = 0"

definition kModuleSingleton :: nat where
  "kModuleSingleton = 1"

definition kObjectSingleton :: nat where
  "kObjectSingleton = 2"

definition RP_REL_GET :: "32 word \<Rightarrow> nat \<Rightarrow> 32 word" where
  "RP_REL_GET r off = r AND push_bit off 1"

definition RP_REL_SET :: "32 word \<Rightarrow> nat \<Rightarrow> 32 word" where
  "RP_REL_SET r off = r OR push_bit off 1"

section \<open>Helper functions: names\<close>

definition figure_singleton_name :: "host \<Rightarrow> VALUE \<Rightarrow> string" where
  "figure_singleton_name h k =
     (let att = attached h k in
      if BUILTIN_TYPE h att = T_CLASS then
        ''<Class::'' @ rb_class_name h att @ ''>''
      else if BUILTIN_TYPE h att = T_MODULE then
        ''<Module::'' @ rb_class_name h att @ ''>''
      else if BUILTIN_TYPE h att = T_OBJECT then
        ''<Object::'' @ rb_class_name h (rb_class_superclass h k) @ ''>''
      else rb_any_to_s h k)"

definition klass_name :: "host \<Rightarrow> VALUE \<Rightarrow> string" where
  "klass_name h k =
     (if k = 0 \<or> k = Qnil then ''[global]''
      else if BUILTIN_TYPE h k = T_MODULE then rb_class_name h k
      else if BUILTIN_TYPE h k = T_CLASS \<and> FL_SINGLETON h k then figure_singleton_name h k
      else if BUILTIN_TYPE h k = T_CLASS then rb_class_name h k
      else ''[unknown]'')"

definition method_name :: "host \<Rightarrow> ID \<Rightarrow> string" where
  "method_name h m = (if RTEST m then rb_id2str h m else ''[no method]'')"

definition full_name :: "host \<Rightarrow> VALUE \<Rightarrow> ID \<Rightarrow> string" where
  "full_name h k m = klass_name h k @ ''#'' @ method_name h m"

definition source_klass_name :: "host \<Rightarrow> VALUE \<Rightarrow> string" where
  "source_klass_name h sk = (if RTEST sk then rb_class_name h sk else ''[global]'')"

text \<open>
  \<open>rb_str_split(str, "::")\<close> is Ruby's \<open>String#split\<close> without a limit: the fields between the
  occurrences of the separator, found from left to right, with the empty fields at the end
  removed. \<open>split_fields\<close> collects the fields, the current one reversed in \<open>acc\<close>.
\<close>

fun split_fields :: "string \<Rightarrow> string \<Rightarrow> string list" where
  "split_fields acc (a # b # cs) =
     (if a = CHR '':'' \<and> b = CHR '':'' then rev acc # split_fields [] cs
      else split_fields (a # acc) (b # cs))"
| "split_fields acc [a] = [rev (a # acc)]"
| "split_fields acc [] = [rev acc]"

definition rb_str_split :: "string \<Rightarrow> string list" where
  "rb_str_split s = rev (dropWhile (\<lambda>f. f = []) (rev (split_fields [] s)))"

fun rb_ary_join :: "string list \<Rightarrow> string \<Rightarrow> string" where
  "rb_ary_join [] sep = []"
| "rb_ary_join [x] sep = x"
| "rb_ary_join (x # y # ys) sep = x @ sep @ rb_ary_join (y # ys) sep"

definition calltree_name :: "host \<Rightarrow> VALUE \<Rightarrow> 32 word \<Rightarrow> ID \<Rightarrow> string" where
  "calltree_name h sk rel m =
     rb_ary_join (rb_str_split (source_klass_name h sk)) ''/''
       @ ''::''
       @ (if RP_REL_GET rel kObjectSingleton \<noteq> 0 then ''*'' else '''')
       @ (if RP_REL_GET rel kModuleSingleton \<noteq> 0 then ''^'' else '''')
       @ method_name h m"

text \<open>
  The specification's words for the owner part of a calltree name: every namespace
  separator, read from the left, becomes a slash.
\<close>

fun rewrite_separators :: "string \<Rightarrow> string" where
  "rewrite_separators (a # b # cs) =
     (if a = CHR '':'' \<and> b = CHR '':'' then CHR ''/'' # rewrite_separators cs
      else a # rewrite_separators (b # cs))"
| "rewrite_separators [a] = [a]"
| "rewrite_separators [] = []"

section \<open>Method keys\<close>

record prof_method_key_t =
  klass :: VALUE
  mid :: ID
  key :: "64 word"       \<comment> \<open>\<open>st_index_t\<close>\<close>

text \<open>The hash is computed from the parameter \<open>klass\<close>, as the last statement of the source has it.\<close>

definition method_key :: "host \<Rightarrow> VALUE \<Rightarrow> ID \<Rightarrow> prof_method_key_t" where
  "method_key h k m =
     \<lparr> klass = (if k = 0 \<or> k = Qnil then Qnil
                else if BUILTIN_TYPE h k = T_ICLASS then RBASIC_klass h k
                else k),
       mid = m,
       key = push_bit 4 k + push_bit 2 m \<rparr>"

text \<open>\<open>rp_init_method_info\<close>: \<open>method_key(&blank_key, Qnil, 0)\<close>.\<close>

definition blank_key :: "host \<Rightarrow> prof_method_key_t" where
  "blank_key h = method_key h Qnil 0"

definition method_table_cmp :: "prof_method_key_t \<Rightarrow> prof_method_key_t \<Rightarrow> int" where
  "method_table_cmp key1 key2 =
     (if klass key1 \<noteq> klass key2 \<or> mid key1 \<noteq> mid key2 then 1 else 0)"

definition method_table_hash :: "prof_method_key_t \<Rightarrow> 64 word" where
  "method_table_hash k = key k"

section \<open>Tables\<close>

text \<open>
  An \<open>st_table\<close> of type \<open>type_method_hash\<close>, as an association list in insertion order
  (the order \<open>st_foreach\<close> visits). The table of \<open>st.c\<close> takes two keys for the same entry when
  their hashes are equal and the comparison function returns 0. (It replaces one reserved
  hash value, all bits set, by another; the hashes of \<open>method_key\<close> are multiples of 4 and
  never meet it.)
\<close>

definition st_equal :: "prof_method_key_t \<Rightarrow> prof_method_key_t \<Rightarrow> bool" where
  "st_equal k1 k2 = (method_table_hash k1 = method_table_hash k2 \<and> method_table_cmp k1 k2 = 0)"

fun st_insert :: "(prof_method_key_t \<times> 'v) list \<Rightarrow> prof_method_key_t \<Rightarrow> 'v
    \<Rightarrow> (prof_method_key_t \<times> 'v) list" where
  "st_insert [] k v = [(k, v)]"
| "st_insert ((k', v') # t) k v =
     (if st_equal k' k then (k', v) # t else (k', v') # st_insert t k v)"

fun st_lookup :: "(prof_method_key_t \<times> 'v) list \<Rightarrow> prof_method_key_t \<Rightarrow> 'v option" where
  "st_lookup [] k = None"
| "st_lookup ((k', v') # t) k = (if st_equal k' k then Some v' else st_lookup t k)"

text \<open>
  Modelled from the spec: the call edge \<open>prof_call_info_t\<close> of \<open>rp_call_info.h\<close>, which is not
  among the sources. An edge refers to one caller node, which may be absent, and one callee
  node. This file reads them as \<open>parent\<close>, a method or \<open>NULL\<close>, and \<open>method\<close>, and of each
  only its key.
\<close>

record prof_call_info_t =
  ci_parent :: "prof_method_key_t option"
  ci_method :: prof_method_key_t

type_synonym call_info_table = "(prof_method_key_t \<times> prof_call_info_t) list"

definition method_table_create :: call_info_table where
  "method_table_create = []"


section \<open>Method nodes\<close>

text \<open>
  The struct \<open>prof_method_t\<close> is declared in \<open>rp_method.h\<close>, which is not among the sources;
  its fields are the ones this file reads and writes, with the types it uses them at.
  \<open>ALLOC\<close> does not clear the memory it returns. A field that one of the two creation
  functions never assigns is a \<open>field\<close>: \<open>Uninit\<close> until it is assigned.
\<close>

datatype 'a field = Uninit | Val 'a

record prof_method_t =
  mkey :: prof_method_key_t                        \<comment> \<open>the field \<open>key\<close>\<close>
  root :: "bool field"
  excluded :: "32 word"
  recursive :: "32 word"
  parent_call_infos :: "call_info_table field"
  child_call_infos :: "call_info_table field"
  visits :: "32 word"
  object :: VALUE
  source_file :: "string option"
  line :: "32 word"
  source_klass :: VALUE
  resolved :: "32 word"
  relation :: "32 word"

definition prof_method_set_source_info ::
    "prof_method_t \<Rightarrow> string option \<Rightarrow> 32 word \<Rightarrow> prof_method_t" where
  "prof_method_set_source_info method_data file source_line =
     (case file of
        Some buffer \<Rightarrow> method_data\<lparr>source_file := Some buffer, line := source_line\<rparr>
      | None \<Rightarrow> method_data\<lparr>source_file := None, line := 0\<rparr>)"

definition prof_method_create :: "host \<Rightarrow> 32 word \<Rightarrow> VALUE \<Rightarrow> ID \<Rightarrow> 32 word \<Rightarrow> prof_method_t" where
  "prof_method_create h event k m ln =
     prof_method_set_source_info
       \<lparr> mkey = method_key h k m,
         root = Val False,
         excluded = 0,
         recursive = 0,
         parent_call_infos = Val method_table_create,
         child_call_infos = Val method_table_create,
         visits = 0,
         object = Qnil,
         source_file = None,
         line = 0,
         source_klass = Qnil,
         resolved = 0,
         relation = 0 \<rparr>
       (if event \<noteq> RUBY_EVENT_C_CALL then rb_sourcefile h else None) ln"

definition prof_method_create_excluded :: "host \<Rightarrow> VALUE \<Rightarrow> ID \<Rightarrow> prof_method_t" where
  "prof_method_create_excluded h k m =
     \<lparr> mkey = method_key h k m,
       root = Uninit,
       excluded = 1,
       recursive = 0,
       parent_call_infos = Uninit,
       child_call_infos = Uninit,
       visits = 0,
       object = Qnil,
       source_file = None,
       line = 0,
       source_klass = Qnil,
       resolved = 0,
       relation = 0 \<rparr>"

section \<open>Source-owner resolution\<close>

text \<open>
  The \<open>while (1)\<close> loop of \<open>resolve_source_klass\<close>. Nothing in the code bounds it: on an
  object graph with a cycle of singleton or inclusion links it runs forever, which is the
  value \<open>None\<close> here.
\<close>

partial_function (option) resolve_loop :: "host \<Rightarrow> VALUE \<Rightarrow> 32 word \<Rightarrow> (VALUE \<times> 32 word) option" where
  "resolve_loop h k rel =
     (if k = 0 \<or> k = Qnil then Some (k, rel)
      else if BUILTIN_TYPE h k = T_CLASS \<and> FL_SINGLETON h k then
        (if BUILTIN_TYPE h (attached h k) = T_CLASS \<or> BUILTIN_TYPE h (attached h k) = T_MODULE then
           resolve_loop h (attached h k) (RP_REL_SET rel kModuleSingleton)
         else if BUILTIN_TYPE h (attached h k) = T_OBJECT then
           resolve_loop h (rb_class_superclass h k) (RP_REL_SET rel kObjectSingleton)
         else
           resolve_loop h (rb_class_superclass h k) (RP_REL_SET rel kObjectSingleton))
      else if BUILTIN_TYPE h k = T_ICLASS then
        resolve_loop h (RBASIC_klass h k) (RP_REL_SET rel kModuleIncludee)
      else Some (k, rel))"

definition resolve_source_klass :: "host \<Rightarrow> prof_method_t \<Rightarrow> (VALUE \<times> prof_method_t) option" where
  "resolve_source_klass h md =
     (if resolved md \<noteq> 0 then Some (source_klass md, md)
      else case resolve_loop h (klass (mkey md)) 0 of
             None \<Rightarrow> None
           | Some (k, rel) \<Rightarrow> Some (k, md\<lparr>resolved := 1, relation := rel, source_klass := k\<rparr>))"

text \<open>
  The handle the loop goes on with from \<open>k\<close>, \<open>None\<close> where it breaks. The loop ends on
  every handle exactly when this step relation has no infinite chain.
\<close>

definition walk_next :: "host \<Rightarrow> VALUE \<Rightarrow> VALUE option" where
  "walk_next h k =
     (if k = 0 \<or> k = Qnil then None
      else if BUILTIN_TYPE h k = T_CLASS \<and> FL_SINGLETON h k then
        (if BUILTIN_TYPE h (attached h k) = T_CLASS \<or> BUILTIN_TYPE h (attached h k) = T_MODULE
         then Some (attached h k) else Some (rb_class_superclass h k))
      else if BUILTIN_TYPE h k = T_ICLASS then Some (RBASIC_klass h k)
      else None)"

definition walk_terminates :: "host \<Rightarrow> bool" where
  "walk_terminates h = wf {(k', k). walk_next h k = Some k'}"

text \<open>
  The handles the loop passes through from \<open>k\<close> are \<open>k\<close> and the ones reached by its steps;
  the walk passes through a proxy when one of them is an inclusion proxy.
\<close>

definition visits_proxy :: "host \<Rightarrow> VALUE \<Rightarrow> bool" where
  "visits_proxy h k =
     (\<exists>k'. (k', k) \<in> rtrancl {(k', k). walk_next h k = Some k'}
        \<and> k' \<noteq> 0 \<and> k' \<noteq> Qnil \<and> BUILTIN_TYPE h k' = T_ICLASS)"

section \<open>Nodes in memory and their Ruby wrappers\<close>

text \<open>
  The nodes live in C memory, at addresses; a Ruby object that wraps a node holds its
  address in \<open>DATA_PTR\<close>, \<open>None\<close> for \<open>NULL\<close>. What C leaves undefined (reading through
  \<open>NULL\<close> or a freed address, reading a field never assigned) is an error value of its own,
  beside the exceptions the code raises.
\<close>

record heap =
  methods :: "nat \<Rightarrow> prof_method_t option"
  DATA_PTR :: "VALUE \<Rightarrow> nat option"

datatype error =
    RuntimeError string
  | RangeError
  | ArgumentError
  | NullPointerDereference
  | InvalidPointer
  | UninitializedRead

definition already_freed :: string where
  "already_freed = ''This RubyProf::MethodInfo instance has already been freed, likely because its profile has been freed.''"

definition on_ok :: "error + 'a \<Rightarrow> ('a \<Rightarrow> error + 'b) \<Rightarrow> error + 'b" where
  "on_ok r f = (case r of Inl e \<Rightarrow> Inl e | Inr x \<Rightarrow> f x)"

definition deref :: "heap \<Rightarrow> nat \<Rightarrow> error + prof_method_t" where
  "deref st p = (case methods st p of None \<Rightarrow> Inl InvalidPointer | Some md \<Rightarrow> Inr md)"

definition prof_get_method :: "heap \<Rightarrow> VALUE \<Rightarrow> error + nat" where
  "prof_get_method st self =
     (case DATA_PTR st self of None \<Rightarrow> Inl (RuntimeError already_freed) | Some p \<Rightarrow> Inr p)"

definition prof_method_get :: "heap \<Rightarrow> VALUE \<Rightarrow> error + nat" where
  "prof_method_get st self =
     (case DATA_PTR st self of None \<Rightarrow> Inl (RuntimeError already_freed) | Some p \<Rightarrow> Inr p)"

text \<open>\<open>Data_Wrap_Struct\<close> makes the new object; \<open>obj\<close> is the handle it returns.\<close>

definition prof_method_wrap :: "heap \<Rightarrow> nat \<Rightarrow> VALUE \<Rightarrow> error + VALUE \<times> heap" where
  "prof_method_wrap st p obj =
     on_ok (deref st p) (\<lambda>md.
       if object md = Qnil then
         Inr (obj, st\<lparr>methods := (methods st)(p \<mapsto> md\<lparr>object := obj\<rparr>),
                      DATA_PTR := (DATA_PTR st)(obj := Some p)\<rparr>)
       else Inr (object md, st))"


definition prof_method_ruby_gc_free :: "heap \<Rightarrow> nat \<Rightarrow> error + heap" where
  "prof_method_ruby_gc_free st p =
     on_ok (deref st p) (\<lambda>md.
       let st1 = (if object md \<noteq> Qnil then st\<lparr>DATA_PTR := (DATA_PTR st)(object md := None)\<rparr> else st)
       in Inr (st1\<lparr>methods := (methods st1)(p \<mapsto> md\<lparr>object := Qnil\<rparr>)\<rparr>))"

definition prof_method_free :: "heap \<Rightarrow> nat \<Rightarrow> error + heap" where
  "prof_method_free st p =
     on_ok (prof_method_ruby_gc_free st p) (\<lambda>st1.
     on_ok (deref st1 p) (\<lambda>md.
       case parent_call_infos md of
         Uninit \<Rightarrow> Inl UninitializedRead
       | Val t1 \<Rightarrow>
           (case child_call_infos md of
              Uninit \<Rightarrow> Inl UninitializedRead
            | Val t2 \<Rightarrow> Inr (st1\<lparr>methods := (methods st1)(p := None)\<rparr>))))"

text \<open>The registry: a table from keys to node addresses.\<close>

type_synonym method_table = "(prof_method_key_t \<times> nat) list"

definition method_table_insert :: "method_table \<Rightarrow> prof_method_key_t \<Rightarrow> nat \<Rightarrow> method_table" where
  "method_table_insert t k val = st_insert t k val"

definition method_table_lookup :: "method_table \<Rightarrow> prof_method_key_t \<Rightarrow> nat option" where
  "method_table_lookup t k = st_lookup t k"

text \<open>\<open>st_foreach\<close> with \<open>method_table_free_iterator\<close>, then the table itself.\<close>

fun method_table_free :: "heap \<Rightarrow> method_table \<Rightarrow> error + heap" where
  "method_table_free st [] = Inr st"
| "method_table_free st ((k, p) # t) = on_ok (prof_method_free st p) (\<lambda>st1. method_table_free st1 t)"

section \<open>The methods of \<open>RubyProf::MethodInfo\<close>\<close>

text \<open>
  Each returns the Ruby value it builds as the HOL value it stands for: an Integer as an
  \<open>int\<close>, a String as a \<open>string\<close>, \<open>Qtrue\<close> and \<open>Qfalse\<close> as a \<open>bool\<close>, an array of wrapped edges
  as the list of the edges.
\<close>

definition prof_method_callers :: "heap \<Rightarrow> VALUE \<Rightarrow> error + prof_call_info_t list" where
  "prof_method_callers st self =
     on_ok (prof_get_method st self) (\<lambda>p. on_ok (deref st p) (\<lambda>md.
       case parent_call_infos md of Uninit \<Rightarrow> Inl UninitializedRead | Val t \<Rightarrow> Inr (map snd t)))"

definition prof_method_callees :: "heap \<Rightarrow> VALUE \<Rightarrow> error + prof_call_info_t list" where
  "prof_method_callees st self =
     on_ok (prof_get_method st self) (\<lambda>p. on_ok (deref st p) (\<lambda>md.
       case child_call_infos md of Uninit \<Rightarrow> Inl UninitializedRead | Val t \<Rightarrow> Inr (map snd t)))"

definition prof_method_line :: "heap \<Rightarrow> VALUE \<Rightarrow> error + int" where
  "prof_method_line st self =
     on_ok (prof_method_get st self) (\<lambda>p. on_ok (deref st p) (\<lambda>md. Inr (sint (line md))))"

definition prof_method_source_file :: "heap \<Rightarrow> VALUE \<Rightarrow> error + string" where
  "prof_method_source_file st self =
     on_ok (prof_method_get st self) (\<lambda>p. on_ok (deref st p) (\<lambda>md.
       case source_file md of Some f \<Rightarrow> Inr f | None \<Rightarrow> Inr ''ruby_runtime''))"

definition prof_method_klass :: "heap \<Rightarrow> VALUE \<Rightarrow> error + VALUE" where
  "prof_method_klass st self =
     on_ok (prof_method_get st self) (\<lambda>p. on_ok (deref st p) (\<lambda>md. Inr (klass (mkey md))))"

definition prof_method_id :: "heap \<Rightarrow> VALUE \<Rightarrow> error + ID" where
  "prof_method_id st self =
     on_ok (prof_method_get st self) (\<lambda>p. on_ok (deref st p) (\<lambda>md. Inr (mid (mkey md))))"

definition prof_klass_name :: "host \<Rightarrow> heap \<Rightarrow> VALUE \<Rightarrow> error + string" where
  "prof_klass_name h st self =
     on_ok (prof_method_get st self) (\<lambda>p. on_ok (deref st p) (\<lambda>md.
       Inr (klass_name h (klass (mkey md)))))"

definition prof_method_name :: "host \<Rightarrow> heap \<Rightarrow> VALUE \<Rightarrow> error + string" where
  "prof_method_name h st self =
     on_ok (prof_method_get st self) (\<lambda>p. on_ok (deref st p) (\<lambda>md.
       Inr (method_name h (mid (mkey md)))))"

definition prof_full_name :: "host \<Rightarrow> heap \<Rightarrow> VALUE \<Rightarrow> error + string" where
  "prof_full_name h st self =
     on_ok (prof_method_get st self) (\<lambda>p. on_ok (deref st p) (\<lambda>md.
       Inr (full_name h (klass (mkey md)) (mid (mkey md)))))"

definition prof_method_root :: "heap \<Rightarrow> VALUE \<Rightarrow> error + bool" where
  "prof_method_root st self =
     on_ok (prof_method_get st self) (\<lambda>p. on_ok (deref st p) (\<lambda>md.
       case root md of Uninit \<Rightarrow> Inl UninitializedRead | Val b \<Rightarrow> Inr b))"

definition prof_method_recursive :: "heap \<Rightarrow> VALUE \<Rightarrow> error + bool" where
  "prof_method_recursive st self =
     on_ok (prof_method_get st self) (\<lambda>p. on_ok (deref st p) (\<lambda>md. Inr (recursive md \<noteq> 0)))"

text \<open>The two that resolve the source owner write the node back; \<open>None\<close> when the walk never ends.\<close>

definition prof_source_klass :: "host \<Rightarrow> heap \<Rightarrow> VALUE \<Rightarrow> (error + VALUE \<times> heap) option" where
  "prof_source_klass h st self =
     (case on_ok (prof_method_get st self) (\<lambda>p. on_ok (deref st p) (\<lambda>md. Inr (p, md))) of
        Inl e \<Rightarrow> Some (Inl e)
      | Inr (p, md) \<Rightarrow>
          (case resolve_source_klass h md of
             None \<Rightarrow> None
           | Some (sk, md') \<Rightarrow> Some (Inr (sk, st\<lparr>methods := (methods st)(p \<mapsto> md')\<rparr>))))"

definition prof_calltree_name :: "host \<Rightarrow> heap \<Rightarrow> VALUE \<Rightarrow> (error + string \<times> heap) option" where
  "prof_calltree_name h st self =
     (case on_ok (prof_method_get st self) (\<lambda>p. on_ok (deref st p) (\<lambda>md. Inr (p, md))) of
        Inl e \<Rightarrow> Some (Inl e)
      | Inr (p, md) \<Rightarrow>
          (case resolve_source_klass h md of
             None \<Rightarrow> None
           | Some (sk, md') \<Rightarrow>
               Some (Inr (calltree_name h sk (relation md') (mid (mkey md')),
                          st\<lparr>methods := (methods st)(p \<mapsto> md')\<rparr>))))"

section \<open>Dump and load\<close>

text \<open>
  The Hash that \<open>_dump_data\<close> builds, one field for each of its seven symbols. \<open>LL2NUM\<close> and
  \<open>INT2FIX\<close> make Ruby Integers, whose values are the signed readings of the C integers.
\<close>

record method_dump =
  d_klass :: VALUE
  d_mid :: int
  d_recursive :: int
  d_source_file :: "string option"
  d_line :: int
  d_callers :: "prof_call_info_t list"
  d_callees :: "prof_call_info_t list"

text \<open>\<open>DATA_PTR(self)\<close> is read without the test that \<open>prof_get_method\<close> makes.\<close>

definition prof_method_dump :: "heap \<Rightarrow> VALUE \<Rightarrow> error + method_dump" where
  "prof_method_dump st self =
     (case DATA_PTR st self of
        None \<Rightarrow> Inl NullPointerDereference
      | Some p \<Rightarrow>
          on_ok (deref st p) (\<lambda>method_data.
          on_ok (prof_method_callers st self) (\<lambda>callers.
          on_ok (prof_method_callees st self) (\<lambda>callees.
            Inr \<lparr> d_klass = klass (mkey method_data),
                  d_mid = sint (mid (mkey method_data)),
                  d_recursive = sint (recursive method_data),
                  d_source_file = source_file method_data,
                  d_line = sint (line method_data),
                  d_callers = callers,
                  d_callees = callees \<rparr>))))"







section \<open>The discipline of the edge tables\<close>




section \<open>An object graph for the concrete evaluations\<close>

text \<open>
  Class \<open>Foo\<close> (16), module \<open>A::B\<close> (32), the singleton class of \<open>Foo\<close> (48), the inclusion
  proxies of \<open>A::B\<close> in two classes (64 and 160), an instance of \<open>Foo\<close> (80) and its
  singleton class (96), an array (112), its singleton class (128), class \<open>Array\<close> (24) and
  the singleton class of \<open>A::B\<close> (176).
\<close>

definition example_host :: host where
  "example_host =
     \<lparr> BUILTIN_TYPE = (\<lambda>v. if v = 16 \<or> v = 24 \<or> v = 48 \<or> v = 96 \<or> v = 128 \<or> v = 176 then T_CLASS
                          else if v = 32 then T_MODULE
                          else if v = 64 \<or> v = 160 then T_ICLASS
                          else if v = 80 then T_OBJECT
                          else T_OTHER),
       FL_SINGLETON = (\<lambda>v. v = 48 \<or> v = 96 \<or> v = 128 \<or> v = 176),
       attached = (\<lambda>v. if v = 48 then 16 else if v = 96 then 80 else if v = 128 then 112
                     else if v = 176 then 32 else Qnil),
       rb_class_superclass = (\<lambda>v. if v = 96 then 16 else if v = 128 then 24 else Qnil),
       rb_class_name = (\<lambda>v. if v = 16 then ''Foo'' else if v = 32 then ''A::B''
                          else if v = 24 then ''Array'' else ''''),
       rb_any_to_s = (\<lambda>v. if v = 128 then ''#<Class:0x80>'' else ''#<Object>''),
       RBASIC_klass = (\<lambda>v. if v = 64 \<or> v = 160 then 32 else 16),
       rb_id2str = (\<lambda>m. if m = 5 then ''run'' else ''other''),
       rb_sourcefile = Some ''prog.rb'' \<rparr>"

text \<open>
  A root node with one caller edge that has no parent and one callee edge, each stored
  under the key of its other end.
\<close>

definition example_root_node :: prof_method_t where
  "example_root_node =
     (prof_method_create example_host 0 16 7 12)
       \<lparr> root := Val True,
         recursive := 1,
         parent_call_infos :=
           Val [(blank_key example_host,
                 \<lparr>ci_parent = None, ci_method = method_key example_host 16 7\<rparr>)],
         child_call_infos :=
           Val [(method_key example_host 32 5,
                 \<lparr>ci_parent = Some (method_key example_host 16 7),
                  ci_method = method_key example_host 32 5\<rparr>)] \<rparr>"

text \<open>
  A memory with four nodes that Ruby has seen, each wrapped by an object: at address 1 a
  node of \<open>prof_method_create\<close> (object 200), at address 2 a node of
  \<open>prof_method_create_excluded\<close> (object 208), at address 3 a node whose owner is the
  singleton class of module \<open>A::B\<close> (object 216), at address 4 the root node (object 224);
  and a registry that holds the first.
\<close>

definition example_heap :: heap where
  "example_heap =
     \<lparr> methods =
         (\<lambda>p. if p = 1 then Some ((prof_method_create example_host 0 16 5 3)\<lparr>object := 200\<rparr>)
              else if p = 2 then Some ((prof_method_create_excluded example_host 16 6)\<lparr>object := 208\<rparr>)
              else if p = 3 then Some ((prof_method_create example_host 0 176 5 3)\<lparr>object := 216\<rparr>)
              else if p = 4 then Some (example_root_node\<lparr>object := 224\<rparr>)
              else None),
       DATA_PTR =
         (\<lambda>v. if v = 200 then Some 1 else if v = 208 then Some 2
              else if v = 216 then Some 3 else if v = 224 then Some 4 else None) \<rparr>"

definition example_table :: method_table where
  "example_table = method_table_insert [] (method_key example_host 16 5) 1"

section \<open>Facts about the helpers\<close>

lemma only_bit:
  fixes v q :: "64 word"
  assumes q: "\<And>n. bit q n \<longleftrightarrow> n = k"
  shows "v AND NOT q = 0 \<longleftrightarrow> v = 0 \<or> v = q"
proof
  assume a: "v AND NOT q = 0"
  have only: "n = k" if "bit v n" for n
  proof -
    have "bit (v AND NOT q) n = bit (0::64 word) n" using a by simp
    with that show ?thesis
      using bit_imp_le_length [of v n] by (simp add: bit_and_iff bit_not_iff q)
  qed
  show "v = 0 \<or> v = q"
  proof (cases "bit v k")
    case True
    have "v = q"
    proof (rule bit_word_eqI)
      fix n show "bit v n = bit q n" using True only [of n] by (auto simp: q)
    qed
    then show ?thesis ..
  next
    case False
    have "v = 0"
    proof (rule bit_word_eqI)
      fix n show "bit v n = bit (0::64 word) n" using False only [of n] by auto
    qed
    then show ?thesis ..
  qed
next
  assume "v = 0 \<or> v = q"
  then show "v AND NOT q = 0" by auto
qed

lemma bit_Qnil: "bit Qnil n \<longleftrightarrow> n = 3"
  unfolding Qnil_def
  using bit_exp_iff [where ?'a = "64 word" and m = 3 and n = n] by auto

lemma RTEST_iff: "RTEST v \<longleftrightarrow> v \<noteq> 0 \<and> v \<noteq> Qnil"
  unfolding RTEST_def using only_bit [of Qnil 3 v, OF bit_Qnil] by simp

lemma example_host_simps:
  "BUILTIN_TYPE example_host =
     (\<lambda>v. if v = 16 \<or> v = 24 \<or> v = 48 \<or> v = 96 \<or> v = 128 \<or> v = 176 then T_CLASS
          else if v = 32 then T_MODULE
          else if v = 64 \<or> v = 160 then T_ICLASS
          else if v = 80 then T_OBJECT
          else T_OTHER)"
  "FL_SINGLETON example_host = (\<lambda>v. v = 48 \<or> v = 96 \<or> v = 128 \<or> v = 176)"
  "attached example_host =
     (\<lambda>v. if v = 48 then 16 else if v = 96 then 80 else if v = 128 then 112
          else if v = 176 then 32 else Qnil)"
  "rb_class_superclass example_host = (\<lambda>v. if v = 96 then 16 else if v = 128 then 24 else Qnil)"
  "rb_class_name example_host =
     (\<lambda>v. if v = 16 then ''Foo'' else if v = 32 then ''A::B'' else if v = 24 then ''Array'' else [])"
  "rb_any_to_s example_host = (\<lambda>v. if v = 128 then ''#<Class:0x80>'' else ''#<Object>'')"
  "RBASIC_klass example_host = (\<lambda>v. if v = 64 \<or> v = 160 then 32 else 16)"
  "rb_id2str example_host = (\<lambda>m. if m = 5 then ''run'' else ''other'')"
  "rb_sourcefile example_host = Some ''prog.rb''"
  by (simp_all add: example_host_def)

section \<open>Display names\<close>

text \<open>
  C5, as the code has it. An owner that is not absent, not a module and not a class (so
  not a singleton class either) is named by the fixed string \<open>[unknown]\<close>; no string
  conversion of the handle is made, and nothing is raised.
\<close>

theorem klass_name_unrecognized:
  "k \<noteq> 0 \<Longrightarrow> k \<noteq> Qnil \<Longrightarrow> BUILTIN_TYPE h k \<noteq> T_MODULE \<Longrightarrow> BUILTIN_TYPE h k \<noteq> T_CLASS
     \<Longrightarrow> klass_name h k = ''[unknown]''"
  by (simp add: klass_name_def)

theorem klass_name_unrecognized_witness:
  "(80 :: VALUE) \<noteq> 0 \<and> 80 \<noteq> Qnil \<and> BUILTIN_TYPE example_host 80 \<noteq> T_MODULE
     \<and> BUILTIN_TYPE example_host 80 \<noteq> T_CLASS \<and> klass_name example_host 80 = ''[unknown]''"
proof -
  have a: "(80 :: VALUE) \<noteq> 0" "(80 :: VALUE) \<noteq> Qnil"
    "BUILTIN_TYPE example_host 80 \<noteq> T_MODULE" "BUILTIN_TYPE example_host 80 \<noteq> T_CLASS"
    by (simp_all add: Qnil_def example_host_simps)
  from klass_name_unrecognized [OF a] a show ?thesis by simp
qed

text \<open>
  C5 as the specification states it fails: the plain object 80 matches none of the
  categories, its generic string conversion is \<open>#<Object>\<close>, and \<open>klass_name\<close> returns
  \<open>[unknown]\<close>.
\<close>

theorem klass_name_generic_counterexample:
  "(80 :: VALUE) \<noteq> 0 \<and> 80 \<noteq> Qnil \<and> BUILTIN_TYPE example_host 80 = T_OBJECT
     \<and> klass_name example_host 80 = ''[unknown]''
     \<and> rb_any_to_s example_host 80 = ''#<Object>''
     \<and> klass_name example_host 80 \<noteq> rb_any_to_s example_host 80"
  by (simp add: klass_name_def Qnil_def example_host_simps)

text \<open>
  C6. The name of a singleton class \<open>k\<close> is the one \<open>figure_singleton_name\<close> builds:
  \<open><Class::\<close>, the name of the attached class and \<open>>\<close> when it is attached to a class;
  \<open><Module::\<close>, the name of the attached module and \<open>>\<close> when it is attached to a module;
  \<open><Object::\<close>, the name of the superclass of \<open>k\<close> and \<open>>\<close> when it is attached to a plain
  object; the generic string conversion of \<open>k\<close> itself in every other case.
\<close>

theorem figure_singleton_name_cases:
  assumes "k \<noteq> 0" "k \<noteq> Qnil" "BUILTIN_TYPE h k = T_CLASS" "FL_SINGLETON h k"
  shows "klass_name h k = figure_singleton_name h k
    \<and> (BUILTIN_TYPE h (attached h k) = T_CLASS \<longrightarrow>
         figure_singleton_name h k = ''<Class::'' @ rb_class_name h (attached h k) @ ''>'')
    \<and> (BUILTIN_TYPE h (attached h k) = T_MODULE \<longrightarrow>
         figure_singleton_name h k = ''<Module::'' @ rb_class_name h (attached h k) @ ''>'')
    \<and> (BUILTIN_TYPE h (attached h k) = T_OBJECT \<longrightarrow>
         figure_singleton_name h k = ''<Object::'' @ rb_class_name h (rb_class_superclass h k) @ ''>'')
    \<and> (BUILTIN_TYPE h (attached h k) \<noteq> T_CLASS \<and> BUILTIN_TYPE h (attached h k) \<noteq> T_MODULE
         \<and> BUILTIN_TYPE h (attached h k) \<noteq> T_OBJECT \<longrightarrow>
         figure_singleton_name h k = rb_any_to_s h k)"
  using assms by (simp add: klass_name_def figure_singleton_name_def Let_def)

theorem figure_singleton_name_cases_witness:
  "klass_name example_host 48 = ''<Class::Foo>''
   \<and> klass_name example_host 176 = ''<Module::A::B>''
   \<and> klass_name example_host 96 = ''<Object::Foo>''
   \<and> klass_name example_host 128 = ''#<Class:0x80>''"
proof -
  have s: "(48 :: VALUE) \<noteq> 0 \<and> 48 \<noteq> Qnil \<and> BUILTIN_TYPE example_host 48 = T_CLASS \<and> FL_SINGLETON example_host 48"
    "(176 :: VALUE) \<noteq> 0 \<and> 176 \<noteq> Qnil \<and> BUILTIN_TYPE example_host 176 = T_CLASS \<and> FL_SINGLETON example_host 176"
    "(96 :: VALUE) \<noteq> 0 \<and> 96 \<noteq> Qnil \<and> BUILTIN_TYPE example_host 96 = T_CLASS \<and> FL_SINGLETON example_host 96"
    "(128 :: VALUE) \<noteq> 0 \<and> 128 \<noteq> Qnil \<and> BUILTIN_TYPE example_host 128 = T_CLASS \<and> FL_SINGLETON example_host 128"
    by (simp_all add: Qnil_def example_host_simps)
  have "klass_name example_host 48 = ''<Class::Foo>''"
    using figure_singleton_name_cases [of 48 example_host] s(1)
    by (simp add: example_host_simps)
  moreover have "klass_name example_host 176 = ''<Module::A::B>''"
    using figure_singleton_name_cases [of 176 example_host] s(2)
    by (simp add: example_host_simps)
  moreover have "klass_name example_host 96 = ''<Object::Foo>''"
    using figure_singleton_name_cases [of 96 example_host] s(3)
    by (simp add: example_host_simps)
  moreover have "klass_name example_host 128 = ''#<Class:0x80>''"
    using figure_singleton_name_cases [of 128 example_host] s(4)
    by (simp add: example_host_simps)
  ultimately show ?thesis by simp
qed

section \<open>Creation\<close>

text \<open>
  C9. A node made by \<open>prof_method_create\<close> is not a root, not excluded, not recursive, has
  no visits and two empty edge tables; made for the event of a native call it has no
  source file; and whenever it has no source file its line is 0, whatever line was given.
\<close>

theorem prof_method_create_defaults:
  assumes "md = prof_method_create h event k m ln"
  shows "root md = Val False \<and> excluded md = 0 \<and> recursive md = 0 \<and> visits md = 0
    \<and> parent_call_infos md = Val [] \<and> child_call_infos md = Val []
    \<and> (event = RUBY_EVENT_C_CALL \<longrightarrow> source_file md = None)
    \<and> (source_file md = None \<longrightarrow> line md = 0)"
  unfolding assms
  by (simp add: prof_method_create_def prof_method_set_source_info_def method_table_create_def
      split: option.splits)

theorem prof_method_create_defaults_witness:
  "root (prof_method_create example_host RUBY_EVENT_C_CALL 16 5 7) = Val False
   \<and> excluded (prof_method_create example_host RUBY_EVENT_C_CALL 16 5 7) = 0
   \<and> recursive (prof_method_create example_host RUBY_EVENT_C_CALL 16 5 7) = 0
   \<and> visits (prof_method_create example_host RUBY_EVENT_C_CALL 16 5 7) = 0
   \<and> parent_call_infos (prof_method_create example_host RUBY_EVENT_C_CALL 16 5 7) = Val []
   \<and> child_call_infos (prof_method_create example_host RUBY_EVENT_C_CALL 16 5 7) = Val []
   \<and> source_file (prof_method_create example_host RUBY_EVENT_C_CALL 16 5 7) = None
   \<and> line (prof_method_create example_host RUBY_EVENT_C_CALL 16 5 7) = 0"
  using prof_method_create_defaults [OF refl, of example_host RUBY_EVENT_C_CALL 16 5 7]
  by simp

section \<open>Facts about tables, errors and the example memory\<close>


lemma on_ok_simps [simp]:
  "on_ok (Inl e) f = Inl e"
  "on_ok (Inr x) f = f x"
  by (simp_all add: on_ok_def)

lemma example_heap_simps:
  "methods example_heap 1 = Some ((prof_method_create example_host 0 16 5 3)\<lparr>object := 200\<rparr>)"
  "methods example_heap 2 = Some ((prof_method_create_excluded example_host 16 6)\<lparr>object := 208\<rparr>)"
  "methods example_heap 3 = Some ((prof_method_create example_host 0 176 5 3)\<lparr>object := 216\<rparr>)"
  "methods example_heap 4 = Some (example_root_node\<lparr>object := 224\<rparr>)"
  "DATA_PTR example_heap 200 = Some 1"
  "DATA_PTR example_heap 208 = Some 2"
  "DATA_PTR example_heap 216 = Some 3"
  "DATA_PTR example_heap 224 = Some 4"
  by (simp_all add: example_heap_def)

section \<open>Keys\<close>

lemma method_key_owner:
  "klass (method_key h k m) =
     (if k = 0 \<or> k = Qnil then Qnil else if BUILTIN_TYPE h k = T_ICLASS then RBASIC_klass h k else k)"
  "mid (method_key h k m) = m"
  by (simp_all add: method_key_def)

text \<open>
  C1, where the code departs from it. The owner of the key is the underlying module of
  a proxy, but the stored hash is computed from the raw owner: two proxies of one module
  give keys that \<open>method_table_cmp\<close> takes for equal and that hash differently, and a node
  stored under one is not found under the other.
\<close>

theorem method_key_hash_raw_owner:
  assumes "BUILTIN_TYPE h k1 = T_ICLASS" "k1 \<noteq> 0" "k1 \<noteq> Qnil"
      and "BUILTIN_TYPE h k2 = T_ICLASS" "k2 \<noteq> 0" "k2 \<noteq> Qnil"
      and "RBASIC_klass h k1 = RBASIC_klass h k2"
      and "push_bit 4 k1 \<noteq> (push_bit 4 k2 :: VALUE)"
  shows "klass (method_key h k1 m) = RBASIC_klass h k1
    \<and> klass (method_key h k2 m) = RBASIC_klass h k1
    \<and> method_table_cmp (method_key h k1 m) (method_key h k2 m) = 0
    \<and> method_table_hash (method_key h k1 m) \<noteq> method_table_hash (method_key h k2 m)
    \<and> method_table_lookup (method_table_insert [] (method_key h k1 m) p) (method_key h k2 m) = None"
  using assms
  by (simp add: method_key_def method_table_cmp_def method_table_hash_def
      method_table_lookup_def method_table_insert_def st_equal_def)

theorem method_key_hash_raw_owner_witness:
  "klass (method_key example_host 64 5) = 32
    \<and> klass (method_key example_host 160 5) = 32
    \<and> method_table_cmp (method_key example_host 64 5) (method_key example_host 160 5) = 0
    \<and> method_table_hash (method_key example_host 64 5) = 1044
    \<and> method_table_hash (method_key example_host 160 5) = 2580
    \<and> method_table_lookup (method_table_insert [] (method_key example_host 64 5) 1)
         (method_key example_host 160 5) = None"
proof -
  have a: "BUILTIN_TYPE example_host 64 = T_ICLASS" "(64 :: VALUE) \<noteq> 0" "(64 :: VALUE) \<noteq> Qnil"
    "BUILTIN_TYPE example_host 160 = T_ICLASS" "(160 :: VALUE) \<noteq> 0" "(160 :: VALUE) \<noteq> Qnil"
    "RBASIC_klass example_host 64 = RBASIC_klass example_host 160"
    "push_bit 4 (64 :: VALUE) \<noteq> push_bit 4 160"
    by (simp_all add: example_host_simps Qnil_def)
  have h: "method_table_hash (method_key example_host 64 5) = 1044"
    "method_table_hash (method_key example_host 160 5) = 2580"
    by (simp_all add: method_table_hash_def method_key_def)
  from method_key_hash_raw_owner [OF a, of 5 1] h show ?thesis
    by (simp add: example_host_simps)
qed

section \<open>Freed nodes\<close>

text \<open>Every accessor that goes through \<open>prof_get_method\<close> or \<open>prof_method_get\<close> raises on a freed wrapper.\<close>

lemma freed_wrapper_raises:
  assumes "DATA_PTR st self = None"
  shows "prof_method_callers st self = Inl (RuntimeError already_freed)"
    "prof_method_callees st self = Inl (RuntimeError already_freed)"
    "prof_method_line st self = Inl (RuntimeError already_freed)"
    "prof_method_source_file st self = Inl (RuntimeError already_freed)"
    "prof_method_klass st self = Inl (RuntimeError already_freed)"
    "prof_method_id st self = Inl (RuntimeError already_freed)"
    "prof_klass_name h st self = Inl (RuntimeError already_freed)"
    "prof_method_name h st self = Inl (RuntimeError already_freed)"
    "prof_full_name h st self = Inl (RuntimeError already_freed)"
    "prof_method_root st self = Inl (RuntimeError already_freed)"
    "prof_method_recursive st self = Inl (RuntimeError already_freed)"
    "prof_source_klass h st self = Some (Inl (RuntimeError already_freed))"
    "prof_calltree_name h st self = Some (Inl (RuntimeError already_freed))"
  using assms
  by (simp_all add: prof_method_callers_def prof_method_callees_def prof_method_line_def
      prof_method_source_file_def prof_method_klass_def prof_method_id_def prof_klass_name_def
      prof_method_name_def prof_full_name_def prof_method_root_def prof_method_recursive_def
      prof_source_klass_def prof_calltree_name_def prof_get_method_def prof_method_get_def)

text \<open>Freeing a node that Ruby has seen clears the pointer of its wrapper.\<close>

lemma prof_method_free_clears_wrapper:
  assumes "methods st p = Some md" "object md \<noteq> Qnil"
      and "parent_call_infos md = Val t1" "child_call_infos md = Val t2"
  shows "\<exists>st'. prof_method_free st p = Inr st' \<and> DATA_PTR st' (object md) = None
    \<and> methods st' p = None"
  using assms
  by (simp add: prof_method_free_def prof_method_ruby_gc_free_def deref_def Let_def)

lemma example_free:
  "method_table_free example_heap example_table =
     Inr \<lparr> methods =
             (\<lambda>p. if p = 2 then Some ((prof_method_create_excluded example_host 16 6)\<lparr>object := 208\<rparr>)
                  else if p = 3 then Some ((prof_method_create example_host 0 176 5 3)\<lparr>object := 216\<rparr>)
                  else if p = 4 then Some (example_root_node\<lparr>object := 224\<rparr>)
                  else None),
           DATA_PTR =
             (\<lambda>v. if v = 208 then Some 2 else if v = 216 then Some 3
                  else if v = 224 then Some 4 else None) \<rparr>"
  by (auto simp: example_table_def method_table_insert_def example_heap_def prof_method_free_def
      prof_method_ruby_gc_free_def deref_def prof_method_create_def
      prof_method_set_source_info_def method_table_create_def Qnil_def Let_def fun_eq_iff
      example_host_simps)

text \<open>
  C2, where the code departs from it. On a wrapper whose node has been freed the read
  accessors raise the error that says so, but \<open>_dump_data\<close> does not: it reads the node
  through the null pointer.
\<close>

theorem prof_method_dump_freed:
  assumes "DATA_PTR st self = None"
  shows "prof_method_dump st self = Inl NullPointerDereference
    \<and> prof_method_dump st self \<noteq> Inl (RuntimeError already_freed)
    \<and> prof_method_line st self = Inl (RuntimeError already_freed)"
  using assms
  by (simp add: prof_method_dump_def prof_method_line_def prof_method_get_def)

theorem prof_method_dump_freed_witness:
  "DATA_PTR example_heap 200 = Some 1
   \<and> on_ok (method_table_free example_heap example_table) (\<lambda>st. Inr (DATA_PTR st 200)) = Inr None
   \<and> on_ok (method_table_free example_heap example_table) (\<lambda>st. prof_method_line st 200)
       = Inl (RuntimeError already_freed)
   \<and> on_ok (method_table_free example_heap example_table) (\<lambda>st. prof_method_dump st 200)
       = Inl NullPointerDereference"
proof -
  obtain st where st: "method_table_free example_heap example_table = Inr st"
    and freed: "DATA_PTR st 200 = None"
    using example_free by simp
  from prof_method_dump_freed [OF freed] st freed show ?thesis
    by (simp add: example_heap_simps)
qed

text \<open>
  C10. \<open>prof_method_create_excluded\<close> assigns neither edge table, where
  \<open>prof_method_create\<close> makes both; so freeing an excluded node, and listing its callers or
  callees, reads a table that was never initialised.
\<close>

theorem excluded_tables_uninitialised:
  "parent_call_infos (prof_method_create_excluded h k m) = Uninit
   \<and> child_call_infos (prof_method_create_excluded h k m) = Uninit
   \<and> parent_call_infos (prof_method_create h event k m ln) = Val []
   \<and> child_call_infos (prof_method_create h event k m ln) = Val []
   \<and> (methods st p = Some ((prof_method_create_excluded h k m)\<lparr>object := obj\<rparr>) \<longrightarrow>
        prof_method_free st p = Inl UninitializedRead
        \<and> (DATA_PTR st self = Some p \<longrightarrow>
             prof_method_callers st self = Inl UninitializedRead
             \<and> prof_method_callees st self = Inl UninitializedRead))"
  by (simp add: prof_method_create_excluded_def prof_method_create_def
      prof_method_set_source_info_def method_table_create_def prof_method_free_def
      prof_method_ruby_gc_free_def deref_def Let_def prof_method_callers_def
      prof_method_callees_def prof_get_method_def split: option.splits)

theorem excluded_tables_uninitialised_witness:
  "parent_call_infos (prof_method_create_excluded example_host 16 6) = Uninit
   \<and> child_call_infos (prof_method_create_excluded example_host 16 6) = Uninit
   \<and> parent_call_infos (prof_method_create example_host 0 16 6 3) = Val []
   \<and> child_call_infos (prof_method_create example_host 0 16 6 3) = Val []
   \<and> methods example_heap 2 = Some ((prof_method_create_excluded example_host 16 6)\<lparr>object := 208\<rparr>)
   \<and> DATA_PTR example_heap 208 = Some 2
   \<and> prof_method_free example_heap 2 = Inl UninitializedRead
   \<and> prof_method_callers example_heap 208 = Inl UninitializedRead
   \<and> prof_method_callees example_heap 208 = Inl UninitializedRead"
  using excluded_tables_uninitialised [of example_host 16 6 0 3 example_heap 2 208 208]
  by (simp add: example_heap_simps)

section \<open>Resolution of the source owner\<close>

lemma resolve_loop_stops:
  assumes "k = 0 \<or> k = Qnil \<or> BUILTIN_TYPE h k = T_MODULE \<or> BUILTIN_TYPE h k = T_OBJECT
    \<or> BUILTIN_TYPE h k = T_OTHER \<or> (BUILTIN_TYPE h k = T_CLASS \<and> \<not> FL_SINGLETON h k)"
  shows "resolve_loop h k rel = Some (k, rel)"
  using assms by (subst resolve_loop.simps) auto

lemma resolve_loop_walk_next:
  "walk_next h k = None \<Longrightarrow> resolve_loop h k rel = Some (k, rel)"
  "walk_next h k = Some k' \<Longrightarrow> \<exists>off. resolve_loop h k rel = resolve_loop h k' (RP_REL_SET rel off)"
  by (subst resolve_loop.simps, auto simp: walk_next_def split: if_splits)+

lemma resolve_loop_terminates:
  assumes "walk_terminates h"
  shows "\<exists>a b. resolve_loop h k rel = Some (a, b)"
proof -
  from assms have wf: "wf {(k', k). walk_next h k = Some k'}"
    by (simp add: walk_terminates_def)
  show ?thesis
  proof (induction k arbitrary: rel rule: wf_induct_rule [OF wf])
    case (1 k)
    have step: "\<exists>a b. resolve_loop h k' rel' = Some (a, b)" if "walk_next h k = Some k'" for k' rel'
      using 1 [of k' rel'] that by auto
    show ?case
      by (subst resolve_loop.simps) (auto simp: walk_next_def intro!: step)
  qed
qed

lemma walk_terminates_example: "walk_terminates example_host"
proof -
  have "{(k', k). walk_next example_host k = Some k'} \<subseteq> measure unat"
    by (auto simp: walk_next_def example_host_simps Qnil_def split: if_splits)
  then show ?thesis
    unfolding walk_terminates_def by (rule wf_subset [OF wf_measure])
qed

lemma created_node_simps:
  "mkey (prof_method_create h event k m ln) = method_key h k m"
  "resolved (prof_method_create h event k m ln) = 0"
  "relation (prof_method_create h event k m ln) = 0"
  by (simp_all add: prof_method_create_def prof_method_set_source_info_def split: option.splits)

lemma includee_bit_simps:
  "RP_REL_GET (RP_REL_SET r kModuleSingleton) kModuleIncludee = RP_REL_GET r kModuleIncludee"
  "RP_REL_GET (RP_REL_SET r kObjectSingleton) kModuleIncludee = RP_REL_GET r kModuleIncludee"
  "RP_REL_GET (RP_REL_SET r kModuleIncludee) kModuleIncludee \<noteq> 0"
  by (simp_all add: RP_REL_GET_def RP_REL_SET_def kModuleSingleton_def kObjectSingleton_def
      kModuleIncludee_def bit.conj_disj_distrib2)

lemma visits_proxy_stop:
  assumes "walk_next h k = None"
  shows "\<not> visits_proxy h k"
proof
  assume "visits_proxy h k"
  then obtain k' where r: "(k', k) \<in> rtrancl {(k', k). walk_next h k = Some k'}"
    and p: "k' \<noteq> 0" "k' \<noteq> Qnil" "BUILTIN_TYPE h k' = T_ICLASS"
    by (auto simp: visits_proxy_def)
  from r assms have "k' = k" by (cases rule: rtrancl.cases) auto
  with p assms show False by (simp add: walk_next_def split: if_splits)
qed

lemma visits_proxy_step:
  assumes "walk_next h k = Some k1"
  shows "visits_proxy h k \<longleftrightarrow>
    (k \<noteq> 0 \<and> k \<noteq> Qnil \<and> BUILTIN_TYPE h k = T_ICLASS) \<or> visits_proxy h k1"
proof
  assume "visits_proxy h k"
  then obtain k' where r: "(k', k) \<in> rtrancl {(k', k). walk_next h k = Some k'}"
    and p: "k' \<noteq> 0" "k' \<noteq> Qnil" "BUILTIN_TYPE h k' = T_ICLASS"
    by (auto simp: visits_proxy_def)
  from r show "(k \<noteq> 0 \<and> k \<noteq> Qnil \<and> BUILTIN_TYPE h k = T_ICLASS) \<or> visits_proxy h k1"
  proof (cases rule: rtrancl.cases)
    case rtrancl_refl
    with p show ?thesis by simp
  next
    case (rtrancl_into_rtrancl b)
    with assms have "b = k1" by simp
    with rtrancl_into_rtrancl p have "visits_proxy h k1"
      by (auto simp: visits_proxy_def)
    then show ?thesis ..
  qed
next
  assume a: "(k \<noteq> 0 \<and> k \<noteq> Qnil \<and> BUILTIN_TYPE h k = T_ICLASS) \<or> visits_proxy h k1"
  show "visits_proxy h k"
  proof (cases "visits_proxy h k1")
    case True
    then obtain k' where r: "(k', k1) \<in> rtrancl {(k', k). walk_next h k = Some k'}"
      and p: "k' \<noteq> 0" "k' \<noteq> Qnil" "BUILTIN_TYPE h k' = T_ICLASS"
      by (auto simp: visits_proxy_def)
    from r assms have "(k', k) \<in> rtrancl {(k', k). walk_next h k = Some k'}"
      by (auto intro: rtrancl_into_rtrancl)
    with p show ?thesis by (auto simp: visits_proxy_def)
  next
    case False
    with a show ?thesis by (auto simp: visits_proxy_def)
  qed
qed

text \<open>
  The bit of an included module in the result of a walk: it is set exactly when it was
  set before the walk or the walk passes through a proxy.
\<close>

lemma resolve_loop_includee:
  assumes "resolve_loop h k rel = Some y"
  shows "RP_REL_GET (snd y) kModuleIncludee \<noteq> 0 \<longleftrightarrow>
    RP_REL_GET rel kModuleIncludee \<noteq> 0 \<or> visits_proxy h k"
proof -
  let ?P = "\<lambda>h k rel y. RP_REL_GET (snd y) kModuleIncludee \<noteq> 0 \<longleftrightarrow>
    RP_REL_GET rel kModuleIncludee \<noteq> 0 \<or> visits_proxy h k"
  have step: "?P h k rel y"
    if IH: "\<And>h k rel y. f h k rel = Some y \<Longrightarrow> ?P h k rel y"
      and body: "(if k = 0 \<or> k = Qnil then Some (k, rel)
      else if BUILTIN_TYPE h k = T_CLASS \<and> FL_SINGLETON h k then
        (if BUILTIN_TYPE h (attached h k) = T_CLASS \<or> BUILTIN_TYPE h (attached h k) = T_MODULE then
           f h (attached h k) (RP_REL_SET rel kModuleSingleton)
         else if BUILTIN_TYPE h (attached h k) = T_OBJECT then
           f h (rb_class_superclass h k) (RP_REL_SET rel kObjectSingleton)
         else
           f h (rb_class_superclass h k) (RP_REL_SET rel kObjectSingleton))
      else if BUILTIN_TYPE h k = T_ICLASS then
        f h (RBASIC_klass h k) (RP_REL_SET rel kModuleIncludee)
      else Some (k, rel)) = Some y"
    for f h k rel y
  proof -
    consider (stop) "walk_next h k = None"
      | (single) k1 off where "walk_next h k = Some k1" "BUILTIN_TYPE h k \<noteq> T_ICLASS"
          "f h k1 (RP_REL_SET rel off) = Some y" "off = kModuleSingleton \<or> off = kObjectSingleton"
      | (proxy) "walk_next h k = Some (RBASIC_klass h k)" "k \<noteq> 0" "k \<noteq> Qnil"
          "BUILTIN_TYPE h k = T_ICLASS"
          "f h (RBASIC_klass h k) (RP_REL_SET rel kModuleIncludee) = Some y"
      using body by (auto simp: walk_next_def split: if_splits)
    then show ?thesis
    proof cases
      case stop
      with body have "y = (k, rel)"
        by (auto simp: walk_next_def split: if_splits)
      with stop show ?thesis by (simp add: visits_proxy_stop)
    next
      case single
      from IH [OF single(3)] single(1,2,4) show ?thesis
        by (auto simp: includee_bit_simps visits_proxy_step)
    next
      case proxy
      from IH [OF proxy(5)] proxy(1-4) show ?thesis
        by (auto simp: includee_bit_simps visits_proxy_step)
    qed
  qed
  show ?thesis
    by (rule resolve_loop.raw_induct [where P = ?P, OF step assms])
qed

text \<open>
  C3, as the code has it. When a method is seen through an inclusion proxy \<open>k\<close> of a
  module \<open>M\<close>, the key of its node already holds \<open>M\<close>, so the resolution starts at \<open>M\<close> and
  stops there: the source owner is \<open>M\<close>, whatever class included it, and no relation bit is
  set. A walk sets the bit of an included module exactly when it starts at or passes
  through a proxy, as the walk from \<open>k\<close> itself would.
\<close>

theorem resolve_after_method_key:
  assumes "k \<noteq> 0" "k \<noteq> Qnil" "BUILTIN_TYPE h k = T_ICLASS"
      and "RBASIC_klass h k = M" "M \<noteq> 0" "M \<noteq> Qnil" "BUILTIN_TYPE h M = T_MODULE"
  shows "klass (mkey (prof_method_create h event k m ln)) = M
    \<and> resolve_source_klass h (prof_method_create h event k m ln) =
        Some (M, (prof_method_create h event k m ln)\<lparr>resolved := 1, relation := 0, source_klass := M\<rparr>)
    \<and> RP_REL_GET 0 kModuleIncludee = 0
    \<and> resolve_loop h k 0 = Some (M, RP_REL_SET 0 kModuleIncludee)
    \<and> \<not> visits_proxy h M \<and> visits_proxy h k
    \<and> (\<forall>k0 sk0 rel0. resolve_loop h k0 0 = Some (sk0, rel0) \<longrightarrow>
          (RP_REL_GET rel0 kModuleIncludee \<noteq> 0 \<longleftrightarrow> visits_proxy h k0))"
proof -
  have M: "resolve_loop h M rel = Some (M, rel)" for rel
    using assms by (simp add: resolve_loop_stops)
  have k: "resolve_loop h k 0 = Some (M, RP_REL_SET 0 kModuleIncludee)"
    using assms by (subst resolve_loop.simps) (simp add: M)
  have key: "klass (mkey (prof_method_create h event k m ln)) = M"
    using assms by (simp add: created_node_simps method_key_owner)
  have nM: "\<not> visits_proxy h M"
    using assms by (intro visits_proxy_stop) (simp add: walk_next_def)
  have vk: "visits_proxy h k"
    using assms by (auto simp: visits_proxy_def)
  have only: "RP_REL_GET rel0 kModuleIncludee \<noteq> 0 \<longleftrightarrow> visits_proxy h k0"
    if "resolve_loop h k0 0 = Some (sk0, rel0)" for k0 sk0 rel0
    using resolve_loop_includee [OF that] by (simp add: RP_REL_GET_def)
  show ?thesis
    using key k nM vk only
    by (simp add: resolve_source_klass_def created_node_simps M RP_REL_GET_def)
qed

theorem resolve_after_method_key_witness:
  "resolve_source_klass example_host (prof_method_create example_host 0 64 5 3) =
     Some (32, (prof_method_create example_host 0 64 5 3)\<lparr>resolved := 1, relation := 0, source_klass := 32\<rparr>)
   \<and> resolve_source_klass example_host (prof_method_create example_host 0 160 5 3) =
     Some (32, (prof_method_create example_host 0 160 5 3)\<lparr>resolved := 1, relation := 0, source_klass := 32\<rparr>)
   \<and> resolve_loop example_host 64 0 = Some (32, 1)
   \<and> visits_proxy example_host 64 \<and> \<not> visits_proxy example_host 32
   \<and> resolve_loop example_host 176 0 = Some (32, 2)
   \<and> \<not> visits_proxy example_host 176"
proof -
  have a: "(64 :: VALUE) \<noteq> 0" "(64 :: VALUE) \<noteq> Qnil" "BUILTIN_TYPE example_host 64 = T_ICLASS"
    "RBASIC_klass example_host 64 = 32" "(32 :: VALUE) \<noteq> 0" "(32 :: VALUE) \<noteq> Qnil"
    "BUILTIN_TYPE example_host 32 = T_MODULE"
    by (simp_all add: example_host_simps Qnil_def)
  have b: "(160 :: VALUE) \<noteq> 0" "(160 :: VALUE) \<noteq> Qnil" "BUILTIN_TYPE example_host 160 = T_ICLASS"
    "RBASIC_klass example_host 160 = 32" "(32 :: VALUE) \<noteq> 0" "(32 :: VALUE) \<noteq> Qnil"
    "BUILTIN_TYPE example_host 32 = T_MODULE"
    by (simp_all add: example_host_simps Qnil_def)
  have stop: "resolve_loop example_host 32 rel = Some (32, rel)" for rel
    by (rule resolve_loop_stops) (simp add: example_host_simps)
  have walk: "resolve_loop example_host 176 0 = Some (32, 2)"
    by (subst resolve_loop.simps)
      (simp add: example_host_simps Qnil_def stop RP_REL_SET_def kModuleSingleton_def)
  have bit: "RP_REL_GET 2 kModuleIncludee = 0"
    by (simp add: RP_REL_GET_def kModuleIncludee_def)
  from resolve_after_method_key [OF a, of 0 5 3] walk bit
  have "\<not> visits_proxy example_host 176" by blast
  with resolve_after_method_key [OF a, of 0 5 3] resolve_after_method_key [OF b, of 0 5 3] walk
  show ?thesis
    by (simp add: RP_REL_SET_def kModuleIncludee_def)
qed

text \<open>
  C3 as the specification states it fails: for the proxy 64 of module 32 the node
  resolves to the module, and the bit for an included module is not set in its relation.
\<close>

theorem resolve_includee_flag_counterexample:
  "BUILTIN_TYPE example_host 64 = T_ICLASS
   \<and> RBASIC_klass example_host 64 = 32
   \<and> BUILTIN_TYPE example_host 32 = T_MODULE
   \<and> resolve_source_klass example_host (prof_method_create example_host 0 64 5 3) =
       Some (32, (prof_method_create example_host 0 64 5 3)\<lparr>resolved := 1, relation := 0, source_klass := 32\<rparr>)
   \<and> RP_REL_GET
        (relation ((prof_method_create example_host 0 64 5 3)\<lparr>resolved := 1, relation := 0, source_klass := 32\<rparr>))
        kModuleIncludee = 0"
proof -
  have "resolve_loop example_host 32 0 = Some (32, 0)"
    by (rule resolve_loop_stops) (simp add: example_host_simps)
  then show ?thesis
    by (simp add: resolve_source_klass_def created_node_simps method_key_owner
        example_host_simps Qnil_def RP_REL_GET_def)
qed

text \<open>
  C8. On an object graph where the walk ends, \<open>resolve_source_klass\<close> returns; a first
  call (the node not yet resolved) makes the walk from the owner of the key and stores its
  result, its relation bits and \<open>resolved = 1\<close> in the node; a call on a resolved node
  changes nothing; and every later call on the node returns the stored result without a
  walk: it gives the same answer on every object graph, also on one where a walk would
  never end.
\<close>

theorem resolve_source_klass_memoized:
  assumes "walk_terminates h"
  shows "\<exists>sk md'. resolve_source_klass h md = Some (sk, md')
    \<and> resolved md' \<noteq> 0 \<and> source_klass md' = sk
    \<and> (resolved md = 0 \<longrightarrow>
          resolve_loop h (klass (mkey md)) 0 = Some (sk, relation md')
          \<and> md' = md\<lparr>resolved := 1, relation := relation md', source_klass := sk\<rparr>)
    \<and> (resolved md \<noteq> 0 \<longrightarrow> md' = md)
    \<and> (\<forall>h'. resolve_source_klass h' md' = Some (sk, md'))"
proof (cases "resolved md = 0")
  case True
  from resolve_loop_terminates [OF assms] obtain sk rel
    where r: "resolve_loop h (klass (mkey md)) 0 = Some (sk, rel)" by fastforce
  with True show ?thesis
    by (simp add: resolve_source_klass_def)
next
  case False
  then show ?thesis by (simp add: resolve_source_klass_def)
qed

theorem resolve_source_klass_memoized_witness:
  "walk_terminates example_host
   \<and> resolve_source_klass example_host (prof_method_create example_host 0 48 5 3) =
       Some (16, (prof_method_create example_host 0 48 5 3)\<lparr>resolved := 1, relation := 2, source_klass := 16\<rparr>)
   \<and> resolve_source_klass example_host
       ((prof_method_create example_host 0 48 5 3)\<lparr>resolved := 1, relation := 2, source_klass := 16\<rparr>) =
       Some (16, (prof_method_create example_host 0 48 5 3)\<lparr>resolved := 1, relation := 2, source_klass := 16\<rparr>)"
proof -
  let ?n = "prof_method_create example_host 0 48 5 3"
  have stop: "resolve_loop example_host 16 rel = Some (16, rel)" for rel
    by (rule resolve_loop_stops) (simp add: example_host_simps)
  have walk: "resolve_loop example_host 48 0 = Some (16, 2)"
    by (subst resolve_loop.simps)
      (simp add: example_host_simps Qnil_def stop RP_REL_SET_def kModuleSingleton_def)
  have first: "resolve_source_klass example_host ?n =
      Some (16, ?n\<lparr>resolved := 1, relation := 2, source_klass := 16\<rparr>)"
    by (simp add: resolve_source_klass_def created_node_simps method_key_owner
        example_host_simps Qnil_def walk)
  from resolve_source_klass_memoized [OF walk_terminates_example, of ?n] first
  have "resolve_source_klass example_host (?n\<lparr>resolved := 1, relation := 2, source_klass := 16\<rparr>) =
      Some (16, ?n\<lparr>resolved := 1, relation := 2, source_klass := 16\<rparr>)"
    by auto
  with first walk_terminates_example show ?thesis by simp
qed

section \<open>Calltree names\<close>

lemma split_fields_not_Nil: "split_fields acc s \<noteq> []"
  by (induction acc s rule: split_fields.induct) auto

lemma rb_ary_join_Cons:
  "ys \<noteq> [] \<Longrightarrow> rb_ary_join (x # ys) sep = x @ sep @ rb_ary_join ys sep"
  by (cases ys) auto

lemma join_split_fields:
  "rb_ary_join (split_fields acc s) ''/'' = rev acc @ rewrite_separators s"
  by (induction acc s rule: split_fields.induct)
    (auto simp: rb_ary_join_Cons split_fields_not_Nil)

lemma last_split_fields:
  "(s = [] \<longrightarrow> acc \<noteq> []) \<Longrightarrow> (s \<noteq> [] \<longrightarrow> last s \<noteq> CHR '':'')
     \<Longrightarrow> last (split_fields acc s) \<noteq> []"
proof (induction acc s rule: split_fields.induct)
  case (1 acc a b cs)
  then show ?case
    by (cases cs) (auto simp: split_fields_not_Nil)
qed auto

lemma dropWhile_rev_last:
  "xs \<noteq> [] \<Longrightarrow> \<not> P (last xs) \<Longrightarrow> dropWhile P (rev xs) = rev xs"
  by (cases xs rule: rev_cases) auto

lemma rb_str_split_keeps_fields:
  assumes "s \<noteq> []" "last s \<noteq> CHR '':''"
  shows "rb_str_split s = split_fields [] s"
proof -
  have "last (split_fields [] s) \<noteq> []"
    using assms by (intro last_split_fields) auto
  then show ?thesis
    by (simp add: rb_str_split_def dropWhile_rev_last split_fields_not_Nil)
qed

text \<open>For a name that is empty or does not end in a colon, splitting at the separators and joining with slashes rewrites every separator.\<close>

lemma join_split_rewrites:
  assumes "s = [] \<or> last s \<noteq> CHR '':''"
  shows "rb_ary_join (rb_str_split s) ''/'' = rewrite_separators s"
proof (cases "s = []")
  case True
  then show ?thesis by (simp add: rb_str_split_def)
next
  case False
  with assms have "rb_str_split s = split_fields [] s"
    by (simp add: rb_str_split_keeps_fields)
  then show ?thesis using join_split_fields [of "[]" s] by simp
qed

lemma calltree_name_parts:
  "calltree_name h sk rel m =
     (if sk = 0 \<or> sk = Qnil then ''[global]''
      else rb_ary_join (rb_str_split (rb_class_name h sk)) ''/'')
     @ ''::''
     @ (if RP_REL_GET rel kObjectSingleton \<noteq> 0 then ''*'' else [])
     @ (if RP_REL_GET rel kModuleSingleton \<noteq> 0 then ''^'' else [])
     @ (if m = 0 \<or> m = Qnil then ''[no method]'' else rb_id2str h m)"
proof -
  have g: "rb_ary_join (rb_str_split ''[global]'') ''/'' = ''[global]''"
    by (simp add: rb_str_split_def)
  show ?thesis
    by (simp add: calltree_name_def source_klass_name_def method_name_def RTEST_iff g)
qed

lemma resolve_source_klass_mkey:
  "resolve_source_klass h md = Some (sk, md') \<Longrightarrow> mkey md' = mkey md"
  by (auto simp: resolve_source_klass_def split: if_splits option.splits)

text \<open>
  C7. For a live node on an object graph where the walk ends, the calltree name is built
  from the resolved owner \<open>sk\<close> and the relation bits of the resolved node: \<open>[global]\<close> when
  the owner is absent, else its class name split at the namespace separators and joined
  with slashes (every separator rewritten to a slash, for a name that does not end in a
  colon); then \<open>::\<close>; then \<open>*\<close> if the bit of an object singleton is set; then \<open>^\<close> if the
  bit of a module singleton is set; then the name of the method, or \<open>[no method]\<close> when
  the identifier does not pass \<open>RTEST\<close>.
\<close>

theorem prof_calltree_name_format:
  assumes "walk_terminates h" "DATA_PTR st self = Some p" "methods st p = Some md"
  shows "\<exists>sk md'. resolve_source_klass h md = Some (sk, md')
    \<and> prof_calltree_name h st self =
        Some (Inr ((if sk = 0 \<or> sk = Qnil then ''[global]''
                    else rb_ary_join (rb_str_split (rb_class_name h sk)) ''/'')
                   @ ''::''
                   @ (if RP_REL_GET (relation md') kObjectSingleton \<noteq> 0 then ''*'' else [])
                   @ (if RP_REL_GET (relation md') kModuleSingleton \<noteq> 0 then ''^'' else [])
                   @ (if mid (mkey md) = 0 \<or> mid (mkey md) = Qnil then ''[no method]''
                      else rb_id2str h (mid (mkey md))),
                   st\<lparr>methods := (methods st)(p \<mapsto> md')\<rparr>))
    \<and> (rb_class_name h sk = [] \<or> last (rb_class_name h sk) \<noteq> CHR '':'' \<longrightarrow>
          rb_ary_join (rb_str_split (rb_class_name h sk)) ''/''
            = rewrite_separators (rb_class_name h sk))"
proof -
  obtain sk md' where r: "resolve_source_klass h md = Some (sk, md')"
  proof (cases "resolved md = 0")
    case True
    from resolve_loop_terminates [OF assms(1)] obtain a b
      where "resolve_loop h (klass (mkey md)) 0 = Some (a, b)" by blast
    with True that show ?thesis by (simp add: resolve_source_klass_def)
  next
    case False
    with that show ?thesis by (simp add: resolve_source_klass_def)
  qed
  have k: "mkey md' = mkey md" by (rule resolve_source_klass_mkey [OF r])
  have "prof_calltree_name h st self =
      Some (Inr (calltree_name h sk (relation md') (mid (mkey md)),
                 st\<lparr>methods := (methods st)(p \<mapsto> md')\<rparr>))"
    using assms(2,3) r k
    by (simp add: prof_calltree_name_def prof_method_get_def deref_def)
  with r show ?thesis
    by (auto simp: calltree_name_parts join_split_rewrites)
qed

theorem prof_calltree_name_format_witness:
  "walk_terminates example_host
   \<and> DATA_PTR example_heap 216 = Some 3
   \<and> methods example_heap 3 = Some ((prof_method_create example_host 0 176 5 3)\<lparr>object := 216\<rparr>)
   \<and> rb_class_name example_host 32 = ''A::B''
   \<and> prof_calltree_name example_host example_heap 216 =
       Some (Inr (''A/B::^run'',
         example_heap\<lparr>methods := (methods example_heap)(3 \<mapsto>
           (prof_method_create example_host 0 176 5 3)
             \<lparr>object := 216, resolved := 1, relation := 2, source_klass := 32\<rparr>)\<rparr>))"
proof -
  let ?n = "(prof_method_create example_host 0 176 5 3)\<lparr>object := 216\<rparr>"
  have stop: "resolve_loop example_host 32 rel = Some (32, rel)" for rel
    by (rule resolve_loop_stops) (simp add: example_host_simps)
  have walk: "resolve_loop example_host 176 0 = Some (32, 2)"
    by (subst resolve_loop.simps)
      (simp add: example_host_simps Qnil_def stop RP_REL_SET_def kModuleSingleton_def)
  have first: "resolve_source_klass example_host ?n =
      Some (32, ?n\<lparr>resolved := 1, relation := 2, source_klass := 32\<rparr>)"
    by (simp add: resolve_source_klass_def created_node_simps method_key_owner
        example_host_simps Qnil_def walk)
  have str: "rb_ary_join (rb_str_split ''A::B'') ''/'' = ''A/B''"
    by (simp add: rb_str_split_def)
  from prof_calltree_name_format [OF walk_terminates_example example_heap_simps(7) example_heap_simps(3)]
    first
  have "prof_calltree_name example_host example_heap 216 =
       Some (Inr (''A/B::^run'',
         example_heap\<lparr>methods := (methods example_heap)(3 \<mapsto>
           ?n\<lparr>resolved := 1, relation := 2, source_klass := 32\<rparr>)\<rparr>))"
    by (auto simp: example_host_simps created_node_simps method_key_owner Qnil_def str
        RP_REL_GET_def kObjectSingleton_def kModuleSingleton_def)
  then show ?thesis
    using walk_terminates_example by (simp add: example_heap_simps example_host_simps)
qed

section \<open>The round trip of dump and load\<close>













text \<open>A key made from an owner that is neither 0 nor an inclusion proxy is the key of its own owner and method identifier.\<close>

lemma method_key_own_key:
  assumes "k \<noteq> 0" "k = Qnil \<or> BUILTIN_TYPE h k \<noteq> T_ICLASS"
  shows "method_key h (klass (method_key h k m)) (mid (method_key h k m)) = method_key h k m"
  using assms by (auto simp: method_key_def)





end
